theory Spec2Isabelle
  imports Complex_Main
begin

section \<open>Python values used by \<open>pike_draw.py\<close>\<close>

text \<open>
  The drawing helpers of \<open>pike_draw.py\<close> take numbers, lists of numbers, strings and
  \<open>None\<close>. A number is a Python \<open>int\<close> (unbounded) or a \<open>float\<close>. The value of a
  float is finite, and then an exact rational, or one of \<open>nan\<close>, \<open>inf\<close> and \<open>-inf\<close>.
  A float is given by its value and by the text that Python prints for it (\<open>repr\<close>): the
  printing algorithm of floats is not part of this development, so the text is carried
  with the value and every statement below holds for whatever text it is.
\<close>

datatype fval = Fin rat | NaN | PosInf | NegInf

type_synonym pystr = string

datatype pynum = PInt int | PFloat fval pystr

datatype pyval =
    PNone
  | PNum pynum
  | PStr string
  | PList "pynum list"
  | PTuple "pynum list"

datatype error =
    ValueError string
  | IndexError
  | UnicodeEncodeError

text \<open>The value of a number; Python compares ints and floats by exact value.\<close>

fun num_val :: "pynum \<Rightarrow> fval" where
  "num_val (PInt i) = Fin (of_int i)"
| "num_val (PFloat v t) = v"

text \<open>
  The comparison \<open><\<close> of values: every comparison with \<open>nan\<close> is false, \<open>-inf\<close> is
  below and \<open>inf\<close> is above every other value. Equality \<open>==\<close> is false on \<open>nan\<close>, also
  against itself.
\<close>

fun fv_lt :: "fval \<Rightarrow> fval \<Rightarrow> bool" where
  "fv_lt (Fin x) (Fin y) = (x < y)"
| "fv_lt (Fin x) PosInf = True"
| "fv_lt NegInf (Fin y) = True"
| "fv_lt NegInf PosInf = True"
| "fv_lt _ _ = False"

definition fv_eq :: "fval \<Rightarrow> fval \<Rightarrow> bool" where
  "fv_eq a b = (a \<noteq> NaN \<and> a = b)"

definition py_lt :: "pynum \<Rightarrow> pynum \<Rightarrow> bool" where
  "py_lt a b = fv_lt (num_val a) (num_val b)"

definition py_gt :: "pynum \<Rightarrow> pynum \<Rightarrow> bool" where
  "py_gt a b = fv_lt (num_val b) (num_val a)"

definition py_eq :: "pynum \<Rightarrow> pynum \<Rightarrow> bool" where
  "py_eq a b = fv_eq (num_val a) (num_val b)"

text \<open>
  \<open>min(c)\<close> and \<open>max(c)\<close> of Python: the first element is the candidate, and a later
  element replaces it when it is strictly smaller (strictly greater). On the empty list
  Python raises \<open>ValueError\<close>.
\<close>

definition py_min :: "pynum list \<Rightarrow> error + pynum" where
  "py_min c = (case c of
       [] \<Rightarrow> Inl (ValueError ''min() arg is an empty sequence'')
     | x # xs \<Rightarrow> Inr (foldl (\<lambda>m y. if py_lt y m then y else m) x xs))"

definition py_max :: "pynum list \<Rightarrow> error + pynum" where
  "py_max c = (case c of
       [] \<Rightarrow> Inl (ValueError ''max() arg is an empty sequence'')
     | x # xs \<Rightarrow> Inr (foldl (\<lambda>m y. if py_gt y m then y else m) x xs))"

subsection \<open>Formatting numbers: \<open>f"{x}"\<close>\<close>

fun nat_str :: "nat \<Rightarrow> string" where
  "nat_str n =
     (if n < 10 then [''0123456789'' ! n]
      else nat_str (n div 10) @ [''0123456789'' ! (n mod 10)])"

declare nat_str.simps [simp del]

definition int_str :: "int \<Rightarrow> string" where
  "int_str i = (if i < 0 then ''-'' @ nat_str (nat (- i)) else nat_str (nat i))"

fun py_format :: "pynum \<Rightarrow> string" where
  "py_format (PInt i) = int_str i"
| "py_format (PFloat v t) = t"

section \<open>\<open>color_code\<close>\<close>

text \<open>
  \<^verbatim>\<open>
  def color_code(c: list, f: str) -> str:
      if type(c) is not list \
          or len(c) != 3 \
          or min(c) < 0 \
          or max(c) > 1:
          raise ValueError("RGB color needs 3 color components in range 0 to 1")
      return f"{c[0]} {c[1]} {c[2]} RG " if f == "c" else f"{c[0]} {c[1]} {c[2]} rg "
  \<close>
  The four tests of the \<open>or\<close> chain are evaluated left to right, each only when the ones
  before it are false.
\<close>

definition InvalidColor :: error where
  "InvalidColor = ValueError ''RGB color needs 3 color components in range 0 to 1''"

definition color_code :: "pyval \<Rightarrow> string \<Rightarrow> error + string" where
  "color_code c f =
     (case c of
        PList xs \<Rightarrow>
          if length xs \<noteq> 3 then Inl InvalidColor
          else (case py_min xs of
              Inl e \<Rightarrow> Inl e
            | Inr lo \<Rightarrow>
                if py_lt lo (PInt 0) then Inl InvalidColor
                else (case py_max xs of
                    Inl e \<Rightarrow> Inl e
                  | Inr hi \<Rightarrow>
                      if py_gt hi (PInt 1) then Inl InvalidColor
                      else if f = ''c''
                        then Inr (py_format (xs ! 0) @ '' '' @ py_format (xs ! 1) @ '' ''
                                  @ py_format (xs ! 2) @ '' RG '')
                        else Inr (py_format (xs ! 0) @ '' '' @ py_format (xs ! 1) @ '' ''
                                  @ py_format (xs ! 2) @ '' rg '')))
      | _ \<Rightarrow> Inl InvalidColor)"

section \<open>The page and the validation shared by both drawing methods\<close>

text \<open>
  Modelled from the spec: \<open>contents_add\<close> belongs to \<open>pikepdf.Page\<close>, which is not part
  of the source. The spec describes it as the operation that appends the given bytes to the
  content stream of the page; the page is modelled by the list of the byte strings added
  to it, oldest first.
\<close>

record page =
  contents :: "string list"

definition contents_add :: "page \<Rightarrow> string \<Rightarrow> page" where
  "contents_add pg bs = pg\<lparr>contents := contents pg @ [bs]\<rparr>"

text \<open>
  \<open>bytes(s, 'ascii')\<close>: every character must be below 128, otherwise Python raises
  \<open>UnicodeEncodeError\<close>. A character of a HOL string is a byte; the values from 128 on
  stand for the characters outside ASCII.
\<close>

definition is_ascii :: "pystr \<Rightarrow> bool" where
  "is_ascii s = list_all (\<lambda>ch. (of_char ch :: nat) < 128) s"

definition ascii_bytes :: "pystr \<Rightarrow> error + string" where
  "ascii_bytes s = (if is_ascii s then Inr s else Inl UnicodeEncodeError)"

text \<open>\<open>x in xs\<close> on numbers compares with \<open>==\<close>; \<open>xs[i]\<close> raises \<open>IndexError\<close> out of range.\<close>

definition py_in :: "pynum \<Rightarrow> pynum list \<Rightarrow> bool" where
  "py_in x xs = list_ex (\<lambda>y. py_eq x y) xs"

definition py_getitem :: "pynum list \<Rightarrow> nat \<Rightarrow> error + pynum" where
  "py_getitem xs i = (if i < length xs then Inr (xs ! i) else Inl IndexError)"

definition and_then :: "error + 'a \<Rightarrow> ('a \<Rightarrow> error + 'b) \<Rightarrow> error + 'b" where
  "and_then m k = (case m of Inl e \<Rightarrow> Inl e | Inr x \<Rightarrow> k x)"

text \<open>
  Lines 45 to 50 of \<open>draw_line\<close>, repeated as lines 105 to 110 of \<open>draw_rect\<close>:
  \<^verbatim>\<open>
  if border_width < 0:
      raise ValueError("border_width must be non-negative")
  if line_join_style not in [0, 1, 2]:
      raise ValueError("line_join_style value must be 0, 1, or 2")
  if line_cap_style not in [0, 1, 2]:
      raise ValueError("line_cap_style value must be 0, 1, or 2")
  \<close>
\<close>

definition BadBorderWidth :: error where
  "BadBorderWidth = ValueError ''border_width must be non-negative''"

definition BadJoinStyle :: error where
  "BadJoinStyle = ValueError ''line_join_style value must be 0, 1, or 2''"

definition BadCapStyle :: error where
  "BadCapStyle = ValueError ''line_cap_style value must be 0, 1, or 2''"

definition check_style :: "pynum \<Rightarrow> pynum \<Rightarrow> pynum \<Rightarrow> error + unit" where
  "check_style border_width line_join_style line_cap_style =
     (if py_lt border_width (PInt 0) then Inl BadBorderWidth
      else if \<not> py_in line_join_style [PInt 0, PInt 1, PInt 2] then Inl BadJoinStyle
      else if \<not> py_in line_cap_style [PInt 0, PInt 1, PInt 2] then Inl BadCapStyle
      else Inr ())"

text \<open>
  \<^verbatim>\<open>
  if dash_pattern is not None:
      dash_pattern_str = dash_pattern + " d"
  else:
      dash_pattern_str = ' '
  \<close>
\<close>

definition dash_pattern_str :: "string option \<Rightarrow> string" where
  "dash_pattern_str dash_pattern =
     (case dash_pattern of Some d \<Rightarrow> d @ '' d'' | None \<Rightarrow> '' '')"

section \<open>\<open>draw_line\<close>\<close>

text \<open>
  Lines 52 to 56: the stroke colour, black when none is given, then the operator \<open>S\<close>.
\<close>

definition line_color_str :: "pyval \<Rightarrow> error + string" where
  "line_color_str stroke_color =
     and_then
       (if stroke_color \<noteq> PNone then color_code stroke_color ''c''
        else color_code (PList [PInt 0, PInt 0, PInt 0]) ''c'')
       (\<lambda>all_color_str. Inr (all_color_str @ ''S''))"

text \<open>
  The template of lines 64 to 75, a triple-quoted f-string: it starts with a line break,
  every line is indented by eight blanks, and it ends with eight blanks after the last
  line break.
\<close>

definition line_stream_str ::
  "pystr \<Rightarrow> pystr \<Rightarrow> pystr \<Rightarrow> pystr \<Rightarrow> pystr \<Rightarrow> pystr \<Rightarrow> pystr \<Rightarrow> pystr \<Rightarrow> pystr
     \<Rightarrow> pystr" where
  "line_stream_str x0 y0 x1 y1 bw js cs dash col =
     ''\<newline>'' @
     ''        q\<newline>'' @
     ''        '' @ x0 @ '' '' @ y0 @ '' m\<newline>'' @
     ''        '' @ x1 @ '' '' @ y1 @ '' l\<newline>'' @
     ''        '' @ bw @ '' w\<newline>'' @
     ''        h\<newline>'' @
     ''        '' @ js @ '' j\<newline>'' @
     ''        '' @ cs @ '' J\<newline>'' @
     ''        '' @ dash @ ''\<newline>'' @
     ''        '' @ col @ ''\<newline>'' @
     ''        Q\<newline>'' @
     ''        ''"

text \<open>
  The bytes that \<open>draw_line\<close> hands to \<open>contents_add\<close>, or the exception raised before:
  the validation, the colour, the dash pattern, the template (whose indexing of the two
  points raises \<open>IndexError\<close> on a list that is too short), and the ASCII encoding.
\<close>

definition draw_line_bytes ::
  "pynum list \<Rightarrow> pynum list \<Rightarrow> pynum \<Rightarrow> pyval \<Rightarrow> string option \<Rightarrow> pynum \<Rightarrow> pynum
     \<Rightarrow> error + string" where
  "draw_line_bytes start_point end_point border_width stroke_color dash_pattern
       line_join_style line_cap_style =
     and_then (check_style border_width line_join_style line_cap_style) (\<lambda>_.
     and_then (line_color_str stroke_color) (\<lambda>all_color_str.
     and_then (py_getitem start_point 0) (\<lambda>x0.
     and_then (py_getitem start_point 1) (\<lambda>y0.
     and_then (py_getitem end_point 0) (\<lambda>x1.
     and_then (py_getitem end_point 1) (\<lambda>y1.
       ascii_bytes
         (line_stream_str (py_format x0) (py_format y0) (py_format x1) (py_format y1)
            (py_format border_width) (py_format line_join_style)
            (py_format line_cap_style) (dash_pattern_str dash_pattern) all_color_str)))))))"

text \<open>
  \<open>draw_line\<close> on a page: the outcome (\<open>None\<close>, or the exception) and the page after the
  call. The defaults of the source are \<open>border_width = 0\<close>, \<open>stroke_color = None\<close>,
  \<open>dash_pattern = None\<close>, \<open>line_join_style = 0\<close> and \<open>line_cap_style = 0\<close>.
\<close>

definition draw_line ::
  "page \<Rightarrow> pynum list \<Rightarrow> pynum list \<Rightarrow> pynum \<Rightarrow> pyval \<Rightarrow> string option \<Rightarrow> pynum \<Rightarrow> pynum
     \<Rightarrow> error option \<times> page" where
  "draw_line self start_point end_point border_width stroke_color dash_pattern
       line_join_style line_cap_style =
     (case draw_line_bytes start_point end_point border_width stroke_color dash_pattern
             line_join_style line_cap_style of
        Inl e \<Rightarrow> (Some e, self)
      | Inr bs \<Rightarrow> (None, contents_add self bs))"

section \<open>\<open>draw_rect\<close>\<close>

text \<open>
  Lines 115 to 125:
  \<^verbatim>\<open>
  all_color_str = ''
  if fill_color is not None and stroke_color is not None:
      all_color_str = color_code(fill_color, 'f') + color_code(stroke_color, 'c') + 'B\n'
  elif fill_color is not None:
      all_color_str = color_code(fill_color, 'f') + 'f\n'
  elif stroke_color is not None:
      all_color_str = color_code(stroke_color, 'c') + '\n'
  elif stroke_color is None: #BLACK
      all_color_str = color_code([0, 0, 0], 'c') + '\n'

  all_color_str += 'S'
  \<close>
\<close>

definition rect_color_str :: "pyval \<Rightarrow> pyval \<Rightarrow> error + string" where
  "rect_color_str fill_color stroke_color =
     and_then
       (if fill_color \<noteq> PNone \<and> stroke_color \<noteq> PNone then
          and_then (color_code fill_color ''f'') (\<lambda>a.
          and_then (color_code stroke_color ''c'') (\<lambda>b. Inr (a @ b @ ''B\<newline>'')))
        else if fill_color \<noteq> PNone then
          and_then (color_code fill_color ''f'') (\<lambda>a. Inr (a @ ''f\<newline>''))
        else if stroke_color \<noteq> PNone then
          and_then (color_code stroke_color ''c'') (\<lambda>b. Inr (b @ ''\<newline>''))
        else if stroke_color = PNone then
          and_then (color_code (PList [PInt 0, PInt 0, PInt 0]) ''c'')
            (\<lambda>b. Inr (b @ ''\<newline>''))
        else Inr [])
       (\<lambda>all_color_str. Inr (all_color_str @ ''S''))"

text \<open>The template of lines 134 to 144.\<close>

definition rect_stream_str ::
  "pystr \<Rightarrow> pystr \<Rightarrow> pystr \<Rightarrow> pystr \<Rightarrow> pystr \<Rightarrow> pystr \<Rightarrow> pystr \<Rightarrow> pystr \<Rightarrow> pystr
     \<Rightarrow> pystr" where
  "rect_stream_str x y w h bw js cs dash col =
     ''\<newline>'' @
     ''        q\<newline>'' @
     ''        '' @ x @ '' '' @ y @ '' '' @ w @ '' '' @ h @ '' re\<newline>'' @
     ''        '' @ bw @ '' w\<newline>'' @
     ''        h\<newline>'' @
     ''        '' @ js @ '' j\<newline>'' @
     ''        '' @ cs @ '' J\<newline>'' @
     ''        '' @ dash @ ''\<newline>'' @
     ''        '' @ col @ ''\<newline>'' @
     ''        Q\<newline>'' @
     ''        ''"

definition draw_rect_bytes ::
  "pynum list \<Rightarrow> pynum \<Rightarrow> pynum \<Rightarrow> pynum \<Rightarrow> pyval \<Rightarrow> string option \<Rightarrow> pyval \<Rightarrow> pynum \<Rightarrow> pynum
     \<Rightarrow> error + string" where
  "draw_rect_bytes point width height border_width stroke_color dash_pattern fill_color
       line_join_style line_cap_style =
     and_then (check_style border_width line_join_style line_cap_style) (\<lambda>_.
     and_then (rect_color_str fill_color stroke_color) (\<lambda>all_color_str.
     and_then (py_getitem point 0) (\<lambda>x.
     and_then (py_getitem point 1) (\<lambda>y.
       ascii_bytes
         (rect_stream_str (py_format x) (py_format y) (py_format width) (py_format height)
            (py_format border_width) (py_format line_join_style)
            (py_format line_cap_style) (dash_pattern_str dash_pattern) all_color_str)))))"

definition draw_rect ::
  "page \<Rightarrow> pynum list \<Rightarrow> pynum \<Rightarrow> pynum \<Rightarrow> pynum \<Rightarrow> pyval \<Rightarrow> string option \<Rightarrow> pyval
     \<Rightarrow> pynum \<Rightarrow> pynum \<Rightarrow> error option \<times> page" where
  "draw_rect self point width height border_width stroke_color dash_pattern fill_color
       line_join_style line_cap_style =
     (case draw_rect_bytes point width height border_width stroke_color dash_pattern
             fill_color line_join_style line_cap_style of
        Inl e \<Rightarrow> (Some e, self)
      | Inr bs \<Rightarrow> (None, contents_add self bs))"

section \<open>Properties\<close>

subsection \<open>Notions used in the statements\<close>

text \<open>
  A number in the closed interval from 0 to 1: its value is finite, at least 0 and at
  most 1.
\<close>

definition in_unit :: "pynum \<Rightarrow> bool" where
  "in_unit x = (case num_val x of Fin v \<Rightarrow> 0 \<le> v \<and> v \<le> 1 | _ \<Rightarrow> False)"

text \<open>The three exceptions of the parameter validation.\<close>

definition InvalidParameter :: "error set" where
  "InvalidParameter = {BadBorderWidth, BadJoinStyle, BadCapStyle}"

subsection \<open>\<open>min\<close>, \<open>max\<close> and \<open>color_code\<close>\<close>

lemma fv_lt_min:
  "m \<noteq> NaN \<Longrightarrow> fv_lt (if fv_lt y m then y else m) b \<longleftrightarrow> fv_lt m b \<or> fv_lt y b"
  by (cases m; cases y; cases b) auto

lemma fv_lt_max:
  "m \<noteq> NaN \<Longrightarrow> fv_lt b (if fv_lt m y then y else m) \<longleftrightarrow> fv_lt b m \<or> fv_lt b y"
  by (cases m; cases y; cases b) auto

lemma fv_lt_not_NaN: "fv_lt a b \<Longrightarrow> a \<noteq> NaN \<and> b \<noteq> NaN"
  by (cases a; cases b) auto

lemma foldl_min_lt:
  "num_val x \<noteq> NaN \<Longrightarrow>
   py_lt (foldl (\<lambda>m y. if py_lt y m then y else m) x xs) b
     \<longleftrightarrow> py_lt x b \<or> (\<exists>y\<in>set xs. py_lt y b)"
proof (induction xs arbitrary: x)
  case Nil
  then show ?case by simp
next
  case (Cons y ys)
  let ?m = "if py_lt y x then y else x"
  have nn: "num_val ?m \<noteq> NaN"
    using Cons.prems fv_lt_not_NaN [of "num_val y" "num_val x"] by (simp add: py_lt_def)
  have step: "py_lt ?m b \<longleftrightarrow> py_lt x b \<or> py_lt y b"
    using fv_lt_min [OF Cons.prems, of "num_val y" "num_val b"]
    by (cases "fv_lt (num_val y) (num_val x)") (simp_all add: py_lt_def)
  show ?case using Cons.IH [OF nn] step by auto
qed

lemma foldl_max_gt:
  "num_val x \<noteq> NaN \<Longrightarrow>
   py_gt (foldl (\<lambda>m y. if py_gt y m then y else m) x xs) b
     \<longleftrightarrow> py_gt x b \<or> (\<exists>y\<in>set xs. py_gt y b)"
proof (induction xs arbitrary: x)
  case Nil
  then show ?case by simp
next
  case (Cons y ys)
  let ?m = "if py_gt y x then y else x"
  have nn: "num_val ?m \<noteq> NaN"
    using Cons.prems fv_lt_not_NaN [of "num_val x" "num_val y"] by (simp add: py_gt_def)
  have step: "py_gt ?m b \<longleftrightarrow> py_gt x b \<or> py_gt y b"
    using fv_lt_max [OF Cons.prems, of "num_val b" "num_val y"]
    by (cases "fv_lt (num_val x) (num_val y)") (simp_all add: py_gt_def)
  show ?case using Cons.IH [OF nn] step by auto
qed

lemma foldl_min_NaN:
  "num_val x = NaN \<Longrightarrow> foldl (\<lambda>m y. if py_lt y m then y else m) x xs = x"
  by (induction xs) (simp_all add: py_lt_def)

lemma foldl_max_NaN:
  "num_val x = NaN \<Longrightarrow> foldl (\<lambda>m y. if py_gt y m then y else m) x xs = x"
proof (induction xs)
  case Nil
  then show ?case by simp
next
  case (Cons y ys)
  have "\<not> fv_lt NaN (num_val y)" by simp
  with Cons show ?case by (simp add: py_gt_def)
qed

text \<open>
  What the validation of \<open>color_code\<close> computes on a list: the length must be 3, and
  then either the first component is \<open>nan\<close>, which \<open>min\<close> and \<open>max\<close> both return, or no
  component compares below 0 or above 1.
\<close>

lemma color_code_list:
  "color_code (PList xs) f =
     (if length xs = 3 \<and>
         (num_val (hd xs) = NaN \<or> (\<forall>x\<in>set xs. \<not> py_lt x (PInt 0) \<and> \<not> py_gt x (PInt 1)))
      then Inr (py_format (xs ! 0) @ '' '' @ py_format (xs ! 1) @ '' '' @ py_format (xs ! 2)
                @ (if f = ''c'' then '' RG '' else '' rg ''))
      else Inl InvalidColor)"
proof (cases "length xs = 3")
  case False
  then show ?thesis by (simp add: color_code_def)
next
  case True
  then obtain x ys where xs: "xs = x # ys" by (cases xs) auto
  show ?thesis
  proof (cases "num_val x = NaN")
    case nan: True
    have "\<not> py_lt x (PInt 0)" "\<not> py_gt x (PInt 1)"
      using nan by (simp_all add: py_lt_def py_gt_def)
    then show ?thesis
      using True nan unfolding xs
      by (simp add: color_code_def py_min_def py_max_def foldl_min_NaN foldl_max_NaN)
  next
    case False
    then show ?thesis
      using True unfolding xs
      by (simp add: color_code_def py_min_def py_max_def foldl_min_lt foldl_max_gt)
  qed
qed

lemma in_unit_cmp: "in_unit x \<Longrightarrow> \<not> py_lt x (PInt 0) \<and> \<not> py_gt x (PInt 1)"
  by (cases "num_val x") (auto simp: in_unit_def py_lt_def py_gt_def)

lemma in_unit_0_1 [simp]: "in_unit (PInt 0)" "in_unit (PInt 1)"
  by (simp_all add: in_unit_def)

lemma color_code_not_list:
  "(\<forall>xs. c \<noteq> PList xs) \<Longrightarrow> color_code c f = Inl InvalidColor"
  by (cases c) (simp_all add: color_code_def)

lemma color_code_rgb:
  "in_unit r \<Longrightarrow> in_unit g \<Longrightarrow>
   in_unit b \<Longrightarrow>
   color_code (PList [r, g, b]) f =
     Inr (py_format r @ '' '' @ py_format g @ '' '' @ py_format b
          @ (if f = ''c'' then '' RG '' else '' rg ''))"
  by (simp add: color_code_list in_unit_cmp)

lemma int_str_digit: "int_str 0 = ''0''" "int_str 1 = ''1''" "int_str 2 = ''2''"
  by (simp_all add: int_str_def nat_str.simps)

text \<open>
  Claim C6. For every colour given as a list of exactly three numbers, each in the closed
  interval from 0 to 1, \<open>color_code\<close> succeeds: in stroke mode (\<open>f = "c"\<close>) it returns
  exactly the three formatted channel values, separated by single blanks, followed by
  \<open>" RG "\<close>; in fill mode (\<open>f = "f"\<close>) the same followed by \<open>" rg "\<close>. The trailing
  blank is kept.
\<close>

theorem color_code_valid:
  assumes "in_unit r"
    and "in_unit g"
    and "in_unit b"
  shows "color_code (PList [r, g, b]) ''c'' =
           Inr (py_format r @ '' '' @ py_format g @ '' '' @ py_format b @ '' RG '')
       \<and> color_code (PList [r, g, b]) ''f'' =
           Inr (py_format r @ '' '' @ py_format g @ '' '' @ py_format b @ '' rg '')"
  using assms by (simp add: color_code_rgb)

theorem color_code_valid_witness:
  "in_unit (PInt 0) \<and> in_unit (PFloat (Fin (1 / 2)) ''0.5'') \<and> in_unit (PInt 1)
   \<and> color_code (PList [PInt 0, PFloat (Fin (1 / 2)) ''0.5'', PInt 1]) ''c'' = Inr ''0 0.5 1 RG ''
   \<and> color_code (PList [PInt 0, PFloat (Fin (1 / 2)) ''0.5'', PInt 1]) ''f'' = Inr ''0 0.5 1 rg ''"
  using color_code_valid [of "PInt 0" "PFloat (Fin (1 / 2)) ''0.5''" "PInt 1"]
  by (simp add: int_str_digit in_unit_def)

text \<open>
  The colours that \<open>color_code\<close> rejects: every list or tuple whose length is not 3, and
  every one with a component below 0 or above 1 unless its first component is \<open>nan\<close>.
\<close>

lemma color_code_rejects:
  assumes "c = PList xs \<or> c = PTuple xs"
    and "length xs \<noteq> 3
         \<or> num_val (hd xs) \<noteq> NaN
           \<and> (\<exists>x\<in>set xs. fv_lt (num_val x) (Fin 0) \<or> fv_lt (Fin 1) (num_val x))"
  shows "color_code c f = Inl InvalidColor"
proof (cases "c = PList xs")
  case True
  have "\<not> (length xs = 3 \<and>
      (num_val (hd xs) = NaN \<or> (\<forall>x\<in>set xs. \<not> py_lt x (PInt 0) \<and> \<not> py_gt x (PInt 1))))"
    using assms(2) by (auto simp: py_lt_def py_gt_def)
  then show ?thesis unfolding True color_code_list by simp
next
  case False
  with assms(1) show ?thesis by (simp add: color_code_def)
qed

text \<open>
  Claim C2 says that \<open>color_code\<close> raises the \<open>ValueError\<close> of an invalid colour whenever
  a component is strictly below 0 or strictly above 1. The code tests \<open>min(c) < 0\<close> and
  \<open>max(c) > 1\<close> only: on a list that starts with \<open>nan\<close> both \<open>min\<close> and \<open>max\<close> return
  that \<open>nan\<close>, both tests are false, and the list is accepted whatever its other
  components are. The calls \<open>color_code([float('nan'), 2, 0], 'c')\<close> and
  \<open>color_code([float('nan'), -1, 0], 'f')\<close> return an operator string, although 2 is
  above 1 and -1 is below 0.
\<close>

theorem color_code_leading_nan:
  "color_code (PList [PFloat NaN ''nan'', PInt 2, PInt 0]) ''c'' = Inr ''nan 2 0 RG ''
   \<and> color_code (PList [PFloat NaN ''nan'', PInt (- 1), PInt 0]) ''f'' = Inr ''nan -1 0 rg ''"
  by (simp add: color_code_list int_str_def nat_str.simps)

text \<open>
  Claim C9. \<open>color_code\<close> rejects every input that is not a Python list with the
  \<open>ValueError\<close> of an invalid colour, also a tuple of three components in range; only a
  list can succeed.
\<close>

theorem color_code_requires_list:
  "(\<forall>xs. c \<noteq> PList xs) \<longrightarrow> color_code c f = Inl InvalidColor"
  by (simp add: color_code_not_list)

theorem color_code_requires_list_witness:
  "(\<forall>xs. PTuple [PInt 0, PInt 1, PInt 0] \<noteq> PList xs)
   \<and> color_code (PTuple [PInt 0, PInt 1, PInt 0]) ''c'' = Inl InvalidColor
   \<and> color_code (PList [PInt 0, PInt 1, PInt 0]) ''c'' = Inr ''0 1 0 RG ''"
  using color_code_requires_list [of "PTuple [PInt 0, PInt 1, PInt 0]" "''c''"]
  by (simp add: color_code_rgb int_str_digit in_unit_def)

text \<open>
  Claim C10. The mode of \<open>color_code\<close> is not a check of two variants: for every valid
  colour and every mode string other than \<open>"c"\<close> the result is the fill-colour operator
  ending in \<open>"rg "\<close>, and the stroke operator ending in \<open>"RG "\<close> is returned exactly
  when the mode is the string \<open>"c"\<close>.
\<close>

theorem color_code_mode:
  assumes "in_unit r"
    and "in_unit g"
    and "in_unit b"
  shows "(f \<noteq> ''c'' \<longrightarrow> color_code (PList [r, g, b]) f =
            Inr (py_format r @ '' '' @ py_format g @ '' '' @ py_format b @ '' rg ''))
       \<and> (color_code (PList [r, g, b]) f =
            Inr (py_format r @ '' '' @ py_format g @ '' '' @ py_format b @ '' RG '')
          \<longleftrightarrow> f = ''c'')"
  using assms by (simp add: color_code_rgb)

theorem color_code_mode_witness:
  "color_code (PList [PInt 1, PInt 0, PInt 0]) ''stroke'' = Inr ''1 0 0 rg ''
   \<and> color_code (PList [PInt 1, PInt 0, PInt 0]) ''C'' = Inr ''1 0 0 rg ''
   \<and> color_code (PList [PInt 1, PInt 0, PInt 0]) [] = Inr ''1 0 0 rg ''
   \<and> color_code (PList [PInt 1, PInt 0, PInt 0]) ''c'' = Inr ''1 0 0 RG ''"
  using color_code_mode [of "PInt 1" "PInt 0" "PInt 0" "''stroke''"]
    color_code_mode [of "PInt 1" "PInt 0" "PInt 0" "''C''"]
    color_code_mode [of "PInt 1" "PInt 0" "PInt 0" "[]"]
    color_code_mode [of "PInt 1" "PInt 0" "PInt 0" "''c''"]
  by (simp add: int_str_digit)

subsection \<open>Exceptions of \<open>draw_line\<close> and \<open>draw_rect\<close>\<close>

lemma and_then_simps [simp]:
  "and_then (Inl e) k = Inl e" "and_then (Inr x) k = k x"
  by (simp_all add: and_then_def)

lemma py_in_012:
  "py_in x [PInt 0, PInt 1, PInt 2] \<longleftrightarrow> num_val x \<in> {Fin 0, Fin 1, Fin 2}"
  by (auto simp: py_in_def py_eq_def fv_eq_def)

lemma check_style_eq:
  "check_style bw js cs =
     (if fv_lt (num_val bw) (Fin 0) then Inl BadBorderWidth
      else if num_val js \<notin> {Fin 0, Fin 1, Fin 2} then Inl BadJoinStyle
      else if num_val cs \<notin> {Fin 0, Fin 1, Fin 2} then Inl BadCapStyle
      else Inr ())"
  unfolding check_style_def py_in_012 by (simp add: py_lt_def)

lemma error_distinct:
  "InvalidColor \<notin> InvalidParameter" "IndexError \<notin> InvalidParameter"
  "UnicodeEncodeError \<notin> InvalidParameter"
  by (simp_all add: InvalidColor_def InvalidParameter_def BadBorderWidth_def BadJoinStyle_def
      BadCapStyle_def)

lemma color_code_error: "color_code c f = Inl e \<Longrightarrow> e = InvalidColor"
proof (cases c)
  case (PList xs)
  assume "color_code c f = Inl e"
  then show ?thesis unfolding PList color_code_list by (simp split: if_splits)
qed (simp_all add: color_code_def)

lemma line_color_str_error: "line_color_str sc = Inl e \<Longrightarrow> e = InvalidColor"
  by (auto simp: line_color_str_def and_then_def split: sum.splits if_splits
      dest: color_code_error)

lemma rect_color_str_error: "rect_color_str fc sc = Inl e \<Longrightarrow> e = InvalidColor"
  by (auto simp: rect_color_str_def and_then_def split: sum.splits if_splits
      dest: color_code_error)

lemma py_getitem_error: "py_getitem xs i = Inl e \<Longrightarrow> e = IndexError"
  by (simp add: py_getitem_def split: if_splits)

lemma ascii_bytes_error: "ascii_bytes s = Inl e \<Longrightarrow> e = UnicodeEncodeError"
  by (simp add: ascii_bytes_def split: if_splits)

lemma draw_line_bytes_checked:
  "check_style bw js cs = Inl e \<Longrightarrow> draw_line_bytes sp ep bw sc dp js cs = Inl e"
  by (simp add: draw_line_bytes_def)

lemma draw_rect_bytes_checked:
  "check_style bw js cs = Inl e \<Longrightarrow> draw_rect_bytes pt w h bw sc dp fc js cs = Inl e"
  by (simp add: draw_rect_bytes_def)

lemma draw_line_bytes_later:
  "check_style bw js cs = Inr () \<Longrightarrow> draw_line_bytes sp ep bw sc dp js cs = Inl e
     \<Longrightarrow> e \<notin> InvalidParameter"
  using error_distinct
  by (auto simp: draw_line_bytes_def and_then_def split: sum.splits
      dest!: line_color_str_error py_getitem_error ascii_bytes_error)

lemma draw_rect_bytes_later:
  "check_style bw js cs = Inr () \<Longrightarrow> draw_rect_bytes pt w h bw sc dp fc js cs = Inl e
     \<Longrightarrow> e \<notin> InvalidParameter"
  using error_distinct
  by (auto simp: draw_rect_bytes_def and_then_def split: sum.splits
      dest!: rect_color_str_error py_getitem_error ascii_bytes_error)

lemma fst_draw_line:
  "fst (draw_line self sp ep bw sc dp js cs) =
     (case draw_line_bytes sp ep bw sc dp js cs of Inl e \<Rightarrow> Some e | Inr bs \<Rightarrow> None)"
  by (simp add: draw_line_def split: sum.splits)

lemma fst_draw_rect:
  "fst (draw_rect self pt w h bw sc dp fc js cs) =
     (case draw_rect_bytes pt w h bw sc dp fc js cs of Inl e \<Rightarrow> Some e | Inr bs \<Rightarrow> None)"
  by (simp add: draw_rect_def split: sum.splits)

lemma draw_line_invalid_parameter:
  "fst (draw_line self sp ep bw sc dp js cs) \<in> Some ` InvalidParameter
     \<longleftrightarrow> fv_lt (num_val bw) (Fin 0) \<or> num_val js \<notin> {Fin 0, Fin 1, Fin 2}
         \<or> num_val cs \<notin> {Fin 0, Fin 1, Fin 2}"
proof (cases "check_style bw js cs")
  case (Inl e)
  then have "e \<in> InvalidParameter"
    by (auto simp: check_style_eq InvalidParameter_def split: if_splits)
  moreover have "fst (draw_line self sp ep bw sc dp js cs) = Some e"
    by (simp add: fst_draw_line draw_line_bytes_checked [OF Inl])
  moreover have "fv_lt (num_val bw) (Fin 0) \<or> num_val js \<notin> {Fin 0, Fin 1, Fin 2}
         \<or> num_val cs \<notin> {Fin 0, Fin 1, Fin 2}"
    using Inl by (auto simp: check_style_eq split: if_splits)
  ultimately show ?thesis by simp
next
  case (Inr u)
  then have ok: "check_style bw js cs = Inr ()" by simp
  then have "\<not> (fv_lt (num_val bw) (Fin 0) \<or> num_val js \<notin> {Fin 0, Fin 1, Fin 2}
         \<or> num_val cs \<notin> {Fin 0, Fin 1, Fin 2})"
    by (auto simp: check_style_eq split: if_splits)
  moreover have "fst (draw_line self sp ep bw sc dp js cs) \<notin> Some ` InvalidParameter"
    using draw_line_bytes_later [OF ok, of sp ep sc dp]
    by (auto simp: fst_draw_line split: sum.splits)
  ultimately show ?thesis by simp
qed

lemma draw_rect_invalid_parameter:
  "fst (draw_rect self pt w h bw sc dp fc js cs) \<in> Some ` InvalidParameter
     \<longleftrightarrow> fv_lt (num_val bw) (Fin 0) \<or> num_val js \<notin> {Fin 0, Fin 1, Fin 2}
         \<or> num_val cs \<notin> {Fin 0, Fin 1, Fin 2}"
proof (cases "check_style bw js cs")
  case (Inl e)
  then have "e \<in> InvalidParameter"
    by (auto simp: check_style_eq InvalidParameter_def split: if_splits)
  moreover have "fst (draw_rect self pt w h bw sc dp fc js cs) = Some e"
    by (simp add: fst_draw_rect draw_rect_bytes_checked [OF Inl])
  moreover have "fv_lt (num_val bw) (Fin 0) \<or> num_val js \<notin> {Fin 0, Fin 1, Fin 2}
         \<or> num_val cs \<notin> {Fin 0, Fin 1, Fin 2}"
    using Inl by (auto simp: check_style_eq split: if_splits)
  ultimately show ?thesis by simp
next
  case (Inr u)
  then have ok: "check_style bw js cs = Inr ()" by simp
  then have "\<not> (fv_lt (num_val bw) (Fin 0) \<or> num_val js \<notin> {Fin 0, Fin 1, Fin 2}
         \<or> num_val cs \<notin> {Fin 0, Fin 1, Fin 2})"
    by (auto simp: check_style_eq split: if_splits)
  moreover have "fst (draw_rect self pt w h bw sc dp fc js cs) \<notin> Some ` InvalidParameter"
    using draw_rect_bytes_later [OF ok, of pt w h sc dp fc]
    by (auto simp: fst_draw_rect split: sum.splits)
  ultimately show ?thesis by simp
qed


subsection \<open>Validation\<close>

text \<open>
  Claim C3. \<open>draw_line\<close> and \<open>draw_rect\<close> raise one of the three \<open>ValueError\<close>s of the
  parameter validation exactly when the border width is below 0, or the join style or the
  cap style is not one of 0, 1, 2: they fail so in each of these cases, and for a border
  width of at least 0 and both styles among 0, 1, 2 the validation passes. The tests are
  those of Python: a border width \<open>nan\<close> is not below 0, and a style \<open>nan\<close> is none of
  0, 1, 2.
\<close>

theorem style_validation:
  "(fst (draw_line self start_point end_point border_width stroke_color dash_pattern
           line_join_style line_cap_style) \<in> Some ` InvalidParameter
      \<longleftrightarrow> fv_lt (num_val border_width) (Fin 0)
          \<or> num_val line_join_style \<notin> {Fin 0, Fin 1, Fin 2}
          \<or> num_val line_cap_style \<notin> {Fin 0, Fin 1, Fin 2})
   \<and> (fst (draw_rect self point width height border_width stroke_color dash_pattern
           fill_color line_join_style line_cap_style) \<in> Some ` InvalidParameter
      \<longleftrightarrow> fv_lt (num_val border_width) (Fin 0)
          \<or> num_val line_join_style \<notin> {Fin 0, Fin 1, Fin 2}
          \<or> num_val line_cap_style \<notin> {Fin 0, Fin 1, Fin 2})"
  by (simp only: draw_line_invalid_parameter draw_rect_invalid_parameter)

theorem style_validation_witness:
  "fst (draw_line \<lparr>contents = []\<rparr> [PInt 1, PInt 2] [PInt 3, PInt 4] (PInt (- 1)) PNone None
          (PInt 0) (PInt 0)) \<in> Some ` InvalidParameter
   \<and> fst (draw_rect \<lparr>contents = []\<rparr> [PInt 1, PInt 2] (PInt 3) (PInt 4) (PInt (- 1)) PNone None
          PNone (PInt 0) (PInt 0)) \<in> Some ` InvalidParameter
   \<and> fst (draw_line \<lparr>contents = []\<rparr> [PInt 1, PInt 2] [PInt 3, PInt 4] (PInt 0) PNone None
          (PInt 3) (PInt 0)) \<in> Some ` InvalidParameter
   \<and> fst (draw_rect \<lparr>contents = []\<rparr> [PInt 1, PInt 2] (PInt 3) (PInt 4) (PInt 0) PNone None
          PNone (PInt 1) (PInt (- 1))) \<in> Some ` InvalidParameter
   \<and> fst (draw_line \<lparr>contents = []\<rparr> [PInt 1, PInt 2] [PInt 3, PInt 4] (PFloat (Fin (5 / 2)) ''2.5'')
          PNone None (PInt 2) (PInt 1)) \<notin> Some ` InvalidParameter
   \<and> fst (draw_rect \<lparr>contents = []\<rparr> [PInt 1, PInt 2] (PInt 3) (PInt 4) (PInt 0)
          (PList [PInt 7]) None PNone (PInt 0) (PInt 2)) \<notin> Some ` InvalidParameter"
  using style_validation [of "\<lparr>contents = []\<rparr>" "[PInt 1, PInt 2]" "[PInt 3, PInt 4]"
      "PInt (- 1)" PNone None "PInt 0" "PInt 0" "[PInt 1, PInt 2]" "PInt 3" "PInt 4" PNone]
    style_validation [of "\<lparr>contents = []\<rparr>" "[PInt 1, PInt 2]" "[PInt 3, PInt 4]"
      "PInt 0" PNone None "PInt 3" "PInt 0" "[PInt 1, PInt 2]" "PInt 3" "PInt 4" PNone]
    style_validation [of "\<lparr>contents = []\<rparr>" "[PInt 1, PInt 2]" "[PInt 3, PInt 4]"
      "PInt 0" PNone None "PInt 1" "PInt (- 1)" "[PInt 1, PInt 2]" "PInt 3" "PInt 4" PNone]
    style_validation [of "\<lparr>contents = []\<rparr>" "[PInt 1, PInt 2]" "[PInt 3, PInt 4]"
      "PFloat (Fin (5 / 2)) ''2.5''" PNone None "PInt 2" "PInt 1" "[PInt 1, PInt 2]" "PInt 3" "PInt 4"
      PNone]
    style_validation [of "\<lparr>contents = []\<rparr>" "[PInt 1, PInt 2]" "[PInt 3, PInt 4]"
      "PInt 0" "PList [PInt 7]" None "PInt 0" "PInt 2" "[PInt 1, PInt 2]" "PInt 3" "PInt 4"
      PNone]
  by simp

text \<open>
  Claim C7. A call of \<open>draw_line\<close> or \<open>draw_rect\<close> that raises an exception, in
  particular the \<open>ValueError\<close> of the parameter validation or of the encoding of a given
  colour, leaves the page as it was: nothing, not even a part of a fragment, is appended
  to the content stream.
\<close>

theorem failed_draw_appends_nothing:
  "(fst (draw_line self start_point end_point border_width stroke_color dash_pattern
           line_join_style line_cap_style) = Some e
      \<longrightarrow> snd (draw_line self start_point end_point border_width stroke_color dash_pattern
           line_join_style line_cap_style) = self)
   \<and> (fst (draw_rect self point width height border_width stroke_color dash_pattern
           fill_color line_join_style line_cap_style) = Some e
      \<longrightarrow> snd (draw_rect self point width height border_width stroke_color dash_pattern
           fill_color line_join_style line_cap_style) = self)"
  by (simp add: draw_line_def draw_rect_def split: sum.splits)

theorem failed_draw_appends_nothing_witness:
  "draw_line \<lparr>contents = [''q Q'']\<rparr> [PInt 1, PInt 2] [PInt 3, PInt 4] (PInt 0)
      (PList [PInt 0, PInt 2, PInt 0]) None (PInt 0) (PInt 0)
     = (Some InvalidColor, \<lparr>contents = [''q Q'']\<rparr>)
   \<and> draw_rect \<lparr>contents = [''q Q'']\<rparr> [PInt 1, PInt 2] (PInt 3) (PInt 4) (PInt 0)
      (PList [PInt 0, PInt 2, PInt 0]) None PNone (PInt 0) (PInt 0)
     = (Some InvalidColor, \<lparr>contents = [''q Q'']\<rparr>)"
proof -
  have l: "fst (draw_line \<lparr>contents = [''q Q'']\<rparr> [PInt 1, PInt 2] [PInt 3, PInt 4] (PInt 0)
      (PList [PInt 0, PInt 2, PInt 0]) None (PInt 0) (PInt 0)) = Some InvalidColor"
    by (simp add: fst_draw_line draw_line_bytes_def check_style_eq line_color_str_def
        color_code_list py_lt_def py_gt_def)
  have r: "fst (draw_rect \<lparr>contents = [''q Q'']\<rparr> [PInt 1, PInt 2] (PInt 3) (PInt 4) (PInt 0)
      (PList [PInt 0, PInt 2, PInt 0]) None PNone (PInt 0) (PInt 0)) = Some InvalidColor"
    by (simp add: fst_draw_rect draw_rect_bytes_def check_style_eq rect_color_str_def
        color_code_list py_lt_def py_gt_def)
  from l r failed_draw_appends_nothing [of "\<lparr>contents = [''q Q'']\<rparr>" "[PInt 1, PInt 2]"
      "[PInt 3, PInt 4]" "PInt 0" "PList [PInt 0, PInt 2, PInt 0]" None "PInt 0" "PInt 0"
      InvalidColor "[PInt 1, PInt 2]" "PInt 3" "PInt 4" PNone]
  show ?thesis by (simp add: prod_eq_iff)
qed


subsection \<open>The fragment of \<open>draw_line\<close>\<close>

lemma is_ascii_append [simp]: "is_ascii (a @ b) \<longleftrightarrow> is_ascii a \<and> is_ascii b"
  by (simp add: is_ascii_def)

lemma is_ascii_Cons: "is_ascii (ch # s) \<longleftrightarrow> (of_char ch :: nat) < 128 \<and> is_ascii s"
  by (simp add: is_ascii_def)

lemma is_ascii_Nil [simp]: "is_ascii []"
  by (simp add: is_ascii_def)


lemma line_color_str_none: "line_color_str PNone = Inr ''0 0 0 RG S''"
  by (simp add: line_color_str_def color_code_rgb int_str_digit)

lemma draw_line_bytes_ok:
  assumes "\<not> fv_lt (num_val bw) (Fin 0)"
    and "num_val js \<in> {Fin 0, Fin 1, Fin 2}" "num_val cs \<in> {Fin 0, Fin 1, Fin 2}"
    and "line_color_str sc = Inr col"
  shows "draw_line_bytes (x0 # y0 # m0) (x1 # y1 # m1) bw sc dp js cs =
     ascii_bytes (line_stream_str (py_format x0) (py_format y0) (py_format x1) (py_format y1)
        (py_format bw) (py_format js) (py_format cs) (dash_pattern_str dp) col)"
proof -
  have "check_style bw js cs = Inr ()"
    using assms(1-3) by (simp add: check_style_eq)
  then show ?thesis
    using assms(4) by (simp add: draw_line_bytes_def py_getitem_def)
qed




subsection \<open>The fragments of \<open>draw_rect\<close>\<close>

lemma rect_color_str_both:
  "in_unit fr \<Longrightarrow> in_unit fg \<Longrightarrow>
   in_unit fb \<Longrightarrow>
   in_unit sr \<Longrightarrow> in_unit sg \<Longrightarrow>
   in_unit sb \<Longrightarrow>
   rect_color_str (PList [fr, fg, fb]) (PList [sr, sg, sb]) =
     Inr (py_format fr @ '' '' @ py_format fg @ '' '' @ py_format fb @ '' rg '' @
          py_format sr @ '' '' @ py_format sg @ '' '' @ py_format sb @ '' RG '' @
          ''B\<newline>'' @ ''S'')"
  by (simp add: rect_color_str_def color_code_rgb)

lemma rect_color_str_fill:
  "in_unit r \<Longrightarrow> in_unit g \<Longrightarrow>
   in_unit b \<Longrightarrow>
   rect_color_str (PList [r, g, b]) PNone =
     Inr (py_format r @ '' '' @ py_format g @ '' '' @ py_format b @ '' rg '' @
          ''f\<newline>'' @ ''S'')"
  by (simp add: rect_color_str_def color_code_rgb)

lemma rect_color_str_none: "rect_color_str PNone PNone = Inr (''0 0 0 RG '' @ ''\<newline>'' @ ''S'')"
  by (simp add: rect_color_str_def color_code_rgb int_str_digit)

lemma rect_color_str_S: "rect_color_str fc sc = Inr col \<Longrightarrow> \<exists>body. col = body @ ''S''"
  by (auto simp: rect_color_str_def and_then_def split: sum.splits)

lemma draw_rect_bytes_ok:
  assumes "\<not> fv_lt (num_val bw) (Fin 0)"
    and "num_val js \<in> {Fin 0, Fin 1, Fin 2}" "num_val cs \<in> {Fin 0, Fin 1, Fin 2}"
    and "rect_color_str fc sc = Inr col"
  shows "draw_rect_bytes (x # y # m) w h bw sc dp fc js cs =
     ascii_bytes (rect_stream_str (py_format x) (py_format y) (py_format w) (py_format h)
        (py_format bw) (py_format js) (py_format cs) (dash_pattern_str dp) col)"
proof -
  have "check_style bw js cs = Inr ()"
    using assms(1-3) by (simp add: check_style_eq)
  then show ?thesis
    using assms(4) by (simp add: draw_rect_bytes_def py_getitem_def)
qed

lemma draw_rect_bytes_S:
  assumes "draw_rect_bytes pt w h bw sc dp fc js cs = Inr bs"
  shows "\<exists>pre. bs = pre @ ''S\<newline>        Q\<newline>        ''"
proof -
  from assms obtain col x y where col: "rect_color_str fc sc = Inr col"
    and bs: "ascii_bytes (rect_stream_str (py_format x) (py_format y) (py_format w)
        (py_format h) (py_format bw) (py_format js) (py_format cs) (dash_pattern_str dp) col)
      = Inr bs"
    by (auto simp: draw_rect_bytes_def and_then_def split: sum.splits)
  from rect_color_str_S [OF col] obtain body where body: "col = body @ ''S''" by blast
  from bs have "bs = rect_stream_str (py_format x) (py_format y) (py_format w)
        (py_format h) (py_format bw) (py_format js) (py_format cs) (dash_pattern_str dp) col"
    by (simp add: ascii_bytes_def split: if_splits)
  then have "bs = (''\<newline>'' @
     ''        q\<newline>'' @
     ''        '' @ py_format x @ '' '' @ py_format y @ '' '' @ py_format w @ '' ''
        @ py_format h @ '' re\<newline>'' @
     ''        '' @ py_format bw @ '' w\<newline>'' @
     ''        h\<newline>'' @
     ''        '' @ py_format js @ '' j\<newline>'' @
     ''        '' @ py_format cs @ '' J\<newline>'' @
     ''        '' @ dash_pattern_str dp @ ''\<newline>'' @
     ''        '' @ body) @ ''S\<newline>        Q\<newline>        ''"
    by (simp add: rect_stream_str_def body)
  then show ?thesis by blast
qed


text \<open>
  Claim C4. For every call of \<open>draw_rect\<close> with a valid fill colour and a valid stroke
  colour, the colour and paint block of the fragment is, in this order: the fill colour
  operator (\<open>rg\<close>), the stroke colour operator (\<open>RG\<close>), the paint operator \<open>B\<close>, and,
  on the next line, the trailing \<open>S\<close>.
\<close>

theorem draw_rect_both_colors:
  fixes x y width height border_width line_join_style line_cap_style fr fg fb sr sg sb :: pynum
    and dash_pattern :: "pystr option"
  defines "fragment \<equiv>
      ''\<newline>'' @
      ''        q\<newline>'' @
      ''        '' @ py_format x @ '' '' @ py_format y @ '' '' @ py_format width @ '' ''
         @ py_format height @ '' re\<newline>'' @
      ''        '' @ py_format border_width @ '' w\<newline>'' @
      ''        h\<newline>'' @
      ''        '' @ py_format line_join_style @ '' j\<newline>'' @
      ''        '' @ py_format line_cap_style @ '' J\<newline>'' @
      ''        '' @ (case dash_pattern of Some d \<Rightarrow> d @ '' d'' | None \<Rightarrow> '' '') @ ''\<newline>'' @
      ''        '' @ py_format fr @ '' '' @ py_format fg @ '' '' @ py_format fb @ '' rg '' @
         py_format sr @ '' '' @ py_format sg @ '' '' @ py_format sb @ '' RG '' @
         ''B\<newline>'' @ ''S'' @ ''\<newline>'' @
      ''        Q\<newline>'' @
      ''        ''"
  assumes "\<not> fv_lt (num_val border_width) (Fin 0)"
    and "num_val line_join_style \<in> {Fin 0, Fin 1, Fin 2}"
    and "num_val line_cap_style \<in> {Fin 0, Fin 1, Fin 2}"
    and "in_unit fr"
    and "in_unit fg"
    and "in_unit fb"
    and "in_unit sr"
    and "in_unit sg"
    and "in_unit sb"
    and "is_ascii fragment"
  shows "draw_rect self (x # y # rest) width height border_width (PList [sr, sg, sb])
           dash_pattern (PList [fr, fg, fb]) line_join_style line_cap_style
         = (None, self\<lparr>contents := contents self @ [fragment]\<rparr>)"
proof -
  note col = rect_color_str_both [OF assms(5-10)]
  have frag: "rect_stream_str (py_format x) (py_format y) (py_format width) (py_format height)
        (py_format border_width) (py_format line_join_style) (py_format line_cap_style)
        (dash_pattern_str dash_pattern)
        (py_format fr @ '' '' @ py_format fg @ '' '' @ py_format fb @ '' rg '' @
          py_format sr @ '' '' @ py_format sg @ '' '' @ py_format sb @ '' RG '' @
          ''B\<newline>'' @ ''S'') = fragment"
    by (simp add: rect_stream_str_def dash_pattern_str_def fragment_def)
  show ?thesis
    unfolding draw_rect_def draw_rect_bytes_ok [OF assms(2-4) col] frag
    using assms(11) by (simp add: ascii_bytes_def contents_add_def)
qed

theorem draw_rect_both_colors_witness:
  "draw_rect \<lparr>contents = []\<rparr> [PInt 100, PInt 682] (PInt 50) (PInt 100) (PFloat (Fin 5) ''5.0'')
      (PList [PInt 0, PInt 0, PInt 0]) None (PList [PInt 1, PInt 0, PInt 0]) (PInt 0) (PInt 0)
   = (None, \<lparr>contents = [
      ''\<newline>        q\<newline>        100 682 50 100 re\<newline>        5.0 w\<newline>        h\<newline>        0 j\<newline>        0 J\<newline>         \<newline>        1 0 0 rg 0 0 0 RG B\<newline>S\<newline>        Q\<newline>        '']\<rparr>)"
  using draw_rect_both_colors [where border_width = "PFloat (Fin 5) ''5.0''"
      and line_join_style = "PInt 0" and line_cap_style = "PInt 0"
      and fr = "PInt 1" and fg = "PInt 0" and fb = "PInt 0"
      and sr = "PInt 0" and sg = "PInt 0" and sb = "PInt 0"
      and x = "PInt 100" and y = "PInt 682" and width = "PInt 50" and height = "PInt 100"
      and dash_pattern = None and self = "\<lparr>contents = []\<rparr>" and rest = "[]"]
  by (simp add: int_str_def nat_str.simps is_ascii_Cons in_unit_def)

text \<open>
  Claim C1 says that a fragment of \<open>draw_rect\<close> with only a fill colour has no \<open>S\<close>
  operator. The call of line 164 of the source, a red square with no stroke colour, shows
  the opposite: the fragment ends its colour block with \<open>f\<close> and then \<open>S\<close>.
\<close>

theorem draw_rect_fill_only_counterexample:
  "draw_rect \<lparr>contents = []\<rparr> [PInt 400, PInt 682] (PInt 50) (PInt 50) (PInt 0)
      PNone None (PList [PInt 1, PInt 0, PInt 0]) (PInt 0) (PInt 0)
   = (None, \<lparr>contents = [
      ''\<newline>        q\<newline>        400 682 50 50 re\<newline>        0 w\<newline>        h\<newline>        0 j\<newline>        0 J\<newline>         \<newline>        1 0 0 rg f\<newline>S\<newline>        Q\<newline>        '']\<rparr>)
   \<and> CHR ''S'' \<in> set (last (contents (snd
        (draw_rect \<lparr>contents = []\<rparr> [PInt 400, PInt 682] (PInt 50) (PInt 50) (PInt 0)
           PNone None (PList [PInt 1, PInt 0, PInt 0]) (PInt 0) (PInt 0)))))"
  by (simp add: draw_rect_def draw_rect_bytes_def check_style_eq rect_color_str_fill
      py_getitem_def rect_stream_str_def dash_pattern_str_def ascii_bytes_def contents_add_def
      int_str_def nat_str.simps is_ascii_Cons)

text \<open>
  Claim C1, amended. For \<open>draw_rect\<close> with only a fill colour given, the colour and
  paint block is the fill colour operator, the paint operator \<open>f\<close> and, on the next line,
  the operator \<open>S\<close>: the trailing \<open>S\<close> is appended in every branch, this one included,
  so the fragment of every successful call of \<open>draw_rect\<close> ends with \<open>S\<close>, a line break
  and the line of \<open>Q\<close>.
\<close>

theorem draw_rect_fill_only:
  fixes x y width height border_width line_join_style line_cap_style r g b :: pynum
    and dash_pattern :: "pystr option"
  defines "fragment \<equiv>
      ''\<newline>'' @
      ''        q\<newline>'' @
      ''        '' @ py_format x @ '' '' @ py_format y @ '' '' @ py_format width @ '' ''
         @ py_format height @ '' re\<newline>'' @
      ''        '' @ py_format border_width @ '' w\<newline>'' @
      ''        h\<newline>'' @
      ''        '' @ py_format line_join_style @ '' j\<newline>'' @
      ''        '' @ py_format line_cap_style @ '' J\<newline>'' @
      ''        '' @ (case dash_pattern of Some d \<Rightarrow> d @ '' d'' | None \<Rightarrow> '' '') @ ''\<newline>'' @
      ''        '' @ py_format r @ '' '' @ py_format g @ '' '' @ py_format b @ '' rg '' @
         ''f\<newline>'' @ ''S'' @ ''\<newline>'' @
      ''        Q\<newline>'' @
      ''        ''"
  assumes "\<not> fv_lt (num_val border_width) (Fin 0)"
    and "num_val line_join_style \<in> {Fin 0, Fin 1, Fin 2}"
    and "num_val line_cap_style \<in> {Fin 0, Fin 1, Fin 2}"
    and "in_unit r"
    and "in_unit g"
    and "in_unit b"
    and "is_ascii fragment"
  shows "draw_rect self (x # y # rest) width height border_width PNone
           dash_pattern (PList [r, g, b]) line_join_style line_cap_style
         = (None, self\<lparr>contents := contents self @ [fragment]\<rparr>)
       \<and> (fst (draw_rect self' point' width' height' border_width' stroke_color'
             dash_pattern' fill_color' line_join_style' line_cap_style') = None
          \<longrightarrow> (\<exists>pre. contents (snd (draw_rect self' point' width' height' border_width'
                 stroke_color' dash_pattern' fill_color' line_join_style' line_cap_style'))
               = contents self' @ [pre @ ''S\<newline>        Q\<newline>        '']))"
proof -
  note col = rect_color_str_fill [OF assms(5-7)]
  have frag: "rect_stream_str (py_format x) (py_format y) (py_format width) (py_format height)
        (py_format border_width) (py_format line_join_style) (py_format line_cap_style)
        (dash_pattern_str dash_pattern)
        (py_format r @ '' '' @ py_format g @ '' '' @ py_format b @ '' rg '' @
          ''f\<newline>'' @ ''S'') = fragment"
    by (simp add: rect_stream_str_def dash_pattern_str_def fragment_def)
  have one: "draw_rect self (x # y # rest) width height border_width PNone
           dash_pattern (PList [r, g, b]) line_join_style line_cap_style
         = (None, self\<lparr>contents := contents self @ [fragment]\<rparr>)"
    unfolding draw_rect_def draw_rect_bytes_ok [OF assms(2-4) col] frag
    using assms(8) by (simp add: ascii_bytes_def contents_add_def)
  have all: "fst (draw_rect self' point' width' height' border_width' stroke_color'
             dash_pattern' fill_color' line_join_style' line_cap_style') = None
          \<longrightarrow> (\<exists>pre. contents (snd (draw_rect self' point' width' height' border_width'
                 stroke_color' dash_pattern' fill_color' line_join_style' line_cap_style'))
               = contents self' @ [pre @ ''S\<newline>        Q\<newline>        ''])"
  proof (cases "draw_rect_bytes point' width' height' border_width' stroke_color'
             dash_pattern' fill_color' line_join_style' line_cap_style'")
    case (Inl e)
    then show ?thesis by (simp add: draw_rect_def)
  next
    case (Inr bs)
    from draw_rect_bytes_S [OF Inr] obtain pre
      where "bs = pre @ ''S\<newline>        Q\<newline>        ''" by blast
    then show ?thesis using Inr by (simp add: draw_rect_def contents_add_def)
  qed
  from one all show ?thesis by blast
qed

theorem draw_rect_fill_only_witness:
  "draw_rect \<lparr>contents = []\<rparr> [PInt 400, PInt 682] (PInt 50) (PInt 50) (PInt 0)
      PNone (Some ''[2 2] 0'') (PList [PInt 1, PFloat (Fin (1 / 2)) ''0.5'', PInt 0]) (PInt 1) (PInt 2)
   = (None, \<lparr>contents = [
      ''\<newline>        q\<newline>        400 682 50 50 re\<newline>        0 w\<newline>        h\<newline>        1 j\<newline>        2 J\<newline>        [2 2] 0 d\<newline>        1 0.5 0 rg f\<newline>S\<newline>        Q\<newline>        '']\<rparr>)"
  using draw_rect_fill_only [where border_width = "PInt 0"
      and line_join_style = "PInt 1" and line_cap_style = "PInt 2"
      and r = "PInt 1" and g = "PFloat (Fin (1 / 2)) ''0.5''" and b = "PInt 0"
      and x = "PInt 400" and y = "PInt 682" and width = "PInt 50" and height = "PInt 50"
      and dash_pattern = "Some ''[2 2] 0''" and self = "\<lparr>contents = []\<rparr>" and rest = "[]"]
  by (simp add: int_str_def nat_str.simps is_ascii_Cons in_unit_def)

subsection \<open>The default colour\<close>

text \<open>
  Claim C8. A valid call of \<open>draw_line\<close> with no stroke colour, and a valid call of
  \<open>draw_rect\<close> with neither a fill nor a stroke colour, use the black stroke colour: the
  colour block of the fragment is \<open>0 0 0 RG \<close> followed by \<open>S\<close> (on the same line for
  the line, on the next line for the rectangle).
\<close>

theorem default_black_stroke:
  fixes x0 y0 x1 y1 x y width height border_width line_join_style line_cap_style :: pynum
    and dash_pattern :: "pystr option"
  defines "line_fragment \<equiv>
      ''\<newline>'' @
      ''        q\<newline>'' @
      ''        '' @ py_format x0 @ '' '' @ py_format y0 @ '' m\<newline>'' @
      ''        '' @ py_format x1 @ '' '' @ py_format y1 @ '' l\<newline>'' @
      ''        '' @ py_format border_width @ '' w\<newline>'' @
      ''        h\<newline>'' @
      ''        '' @ py_format line_join_style @ '' j\<newline>'' @
      ''        '' @ py_format line_cap_style @ '' J\<newline>'' @
      ''        '' @ (case dash_pattern of Some d \<Rightarrow> d @ '' d'' | None \<Rightarrow> '' '') @ ''\<newline>'' @
      ''        '' @ ''0 0 0 RG '' @ ''S'' @ ''\<newline>'' @
      ''        Q\<newline>'' @
      ''        ''"
    and "rect_fragment \<equiv>
      ''\<newline>'' @
      ''        q\<newline>'' @
      ''        '' @ py_format x @ '' '' @ py_format y @ '' '' @ py_format width @ '' ''
         @ py_format height @ '' re\<newline>'' @
      ''        '' @ py_format border_width @ '' w\<newline>'' @
      ''        h\<newline>'' @
      ''        '' @ py_format line_join_style @ '' j\<newline>'' @
      ''        '' @ py_format line_cap_style @ '' J\<newline>'' @
      ''        '' @ (case dash_pattern of Some d \<Rightarrow> d @ '' d'' | None \<Rightarrow> '' '') @ ''\<newline>'' @
      ''        '' @ ''0 0 0 RG '' @ ''\<newline>'' @ ''S'' @ ''\<newline>'' @
      ''        Q\<newline>'' @
      ''        ''"
  assumes "\<not> fv_lt (num_val border_width) (Fin 0)"
    and "num_val line_join_style \<in> {Fin 0, Fin 1, Fin 2}"
    and "num_val line_cap_style \<in> {Fin 0, Fin 1, Fin 2}"
  shows "(is_ascii line_fragment \<longrightarrow>
           draw_line self (x0 # y0 # more0) (x1 # y1 # more1) border_width PNone
             dash_pattern line_join_style line_cap_style
           = (None, self\<lparr>contents := contents self @ [line_fragment]\<rparr>))
       \<and> (is_ascii rect_fragment \<longrightarrow>
           draw_rect self (x # y # rest) width height border_width PNone
             dash_pattern PNone line_join_style line_cap_style
           = (None, self\<lparr>contents := contents self @ [rect_fragment]\<rparr>))"
proof -
  have lfrag: "line_stream_str (py_format x0) (py_format y0) (py_format x1) (py_format y1)
        (py_format border_width) (py_format line_join_style) (py_format line_cap_style)
        (dash_pattern_str dash_pattern) ''0 0 0 RG S'' = line_fragment"
    by (simp add: line_stream_str_def dash_pattern_str_def line_fragment_def)
  have rfrag: "rect_stream_str (py_format x) (py_format y) (py_format width) (py_format height)
        (py_format border_width) (py_format line_join_style) (py_format line_cap_style)
        (dash_pattern_str dash_pattern) (''0 0 0 RG '' @ ''\<newline>'' @ ''S'') = rect_fragment"
    by (simp add: rect_stream_str_def dash_pattern_str_def rect_fragment_def)
  have "is_ascii line_fragment \<longrightarrow>
           draw_line self (x0 # y0 # more0) (x1 # y1 # more1) border_width PNone
             dash_pattern line_join_style line_cap_style
           = (None, self\<lparr>contents := contents self @ [line_fragment]\<rparr>)"
    unfolding draw_line_def draw_line_bytes_ok [OF assms(3-5) line_color_str_none] lfrag
    by (simp add: ascii_bytes_def contents_add_def)
  moreover have "is_ascii rect_fragment \<longrightarrow>
           draw_rect self (x # y # rest) width height border_width PNone
             dash_pattern PNone line_join_style line_cap_style
           = (None, self\<lparr>contents := contents self @ [rect_fragment]\<rparr>)"
    unfolding draw_rect_def draw_rect_bytes_ok [OF assms(3-5) rect_color_str_none] rfrag
    by (simp add: ascii_bytes_def contents_add_def)
  ultimately show ?thesis by blast
qed

theorem default_black_stroke_witness:
  "draw_line \<lparr>contents = []\<rparr> [PInt 10, PInt 50] [PInt 300, PInt 400] (PInt 2) PNone
      None (PInt 0) (PInt 1)
   = (None, \<lparr>contents = [
      ''\<newline>        q\<newline>        10 50 m\<newline>        300 400 l\<newline>        2 w\<newline>        h\<newline>        0 j\<newline>        1 J\<newline>         \<newline>        0 0 0 RG S\<newline>        Q\<newline>        '']\<rparr>)
   \<and> draw_rect \<lparr>contents = []\<rparr> [PInt 7, PInt 8] (PInt 50) (PInt 100) (PInt 2) PNone
      None PNone (PInt 0) (PInt 1)
   = (None, \<lparr>contents = [
      ''\<newline>        q\<newline>        7 8 50 100 re\<newline>        2 w\<newline>        h\<newline>        0 j\<newline>        1 J\<newline>         \<newline>        0 0 0 RG \<newline>S\<newline>        Q\<newline>        '']\<rparr>)"
  using default_black_stroke [where border_width = "PInt 2"
      and line_join_style = "PInt 0" and line_cap_style = "PInt 1"
      and ?x0.0 = "PInt 10" and ?y0.0 = "PInt 50" and ?x1.0 = "PInt 300" and ?y1.0 = "PInt 400"
      and x = "PInt 7" and y = "PInt 8" and width = "PInt 50" and height = "PInt 100"
      and dash_pattern = None and self = "\<lparr>contents = []\<rparr>" and rest = "[]"
      and ?more0.0 = "[]" and ?more1.0 = "[]"]
  by (simp add: int_str_def nat_str.simps is_ascii_Cons in_unit_def)

end
